theory Spec2Isabelle
  imports Main "HOL-Library.Word"
begin

chapter \<open>The AD trust installer (ipaserver/install/adtrustinstance.py)\<close>

text \<open>
  A shallow embedding of the pure helpers and of the installation steps of
  \<^verbatim>\<open>ADTRUSTInstance\<close>. ASCII literals, names and messages are \<^typ>\<open>string\<close>, the
  text that is uppercased is a list of code points, Python integers are
  \<^typ>\<open>int\<close>, a raised exception is a value of \<open>py_error\<close>, and every call to an
  external collaborator (directory server, service manager, state store) is either a
  parameter of the model or recorded in the result of the step.
\<close>

section \<open>Exceptions\<close>

datatype py_error =
    IndexError
  | StructError
  | ValueError
  | NotFound
  | RuntimeError string
  | LDAPError string

section \<open>NetBIOS names\<close>

text \<open>\<^verbatim>\<open>ALLOWED_NETBIOS_CHARS = string.ascii_uppercase + string.digits\<close>\<close>

definition ascii_uppercase :: string where
  "ascii_uppercase = ''ABCDEFGHIJKLMNOPQRSTUVWXYZ''"

definition digits :: string where
  "digits = ''0123456789''"

definition ALLOWED_NETBIOS_CHARS :: string where
  "ALLOWED_NETBIOS_CHARS = ascii_uppercase @ digits"

text \<open>\<^verbatim>\<open>''.join(parts)\<close>: the parts glued together with nothing in between.\<close>

definition join_empty :: "'a list list \<Rightarrow> 'a list" where
  "join_empty parts = concat parts"

text \<open>
  \<^verbatim>\<open>check_netbios_name(s)\<close>, lines 88 to 94. \<^verbatim>\<open>not s\<close> is the empty string, and the
  joined list of the characters outside the allowed set is truthy when it is not empty.
\<close>

definition check_netbios_name :: "string \<Rightarrow> bool" where
  "check_netbios_name s =
     (if s = [] \<or> length s > 15 \<or>
         join_empty [[c]. c \<leftarrow> s, c \<notin> set ALLOWED_NETBIOS_CHARS] \<noteq> []
      then False else True)"

text \<open>
  \<^verbatim>\<open>s.split(sep)\<close> for a one-character separator: every occurrence of the separator
  cuts, so the result always has at least one (possibly empty) part.
\<close>

fun split_sep :: "'a \<Rightarrow> 'a list \<Rightarrow> 'a list list" where
  "split_sep sep [] = [[]]"
| "split_sep sep (c # cs) =
     (if c = sep then [] # split_sep sep cs
      else (case split_sep sep cs of
              [] \<Rightarrow> [[c]]
            | w # ws \<Rightarrow> (c # w) # ws))"

text \<open>
  The host name handed to \<^verbatim>\<open>make_netbios_name\<close> is Python text (\<^verbatim>\<open>api.env.host\<close>),
  a sequence of Unicode code points, or a byte string, a sequence of code points below
  256. Both are lists of natural numbers here; \<open>text_of\<close> reads a literal.
\<close>

type_synonym py_text = "nat list"

definition text_of :: "string \<Rightarrow> py_text" where
  "text_of s = map of_char s"

text \<open>
  \<^verbatim>\<open>s.upper()\<close>. On the ASCII range it moves the letters a to z to A to Z and keeps
  every other character. What it does to a character beyond ASCII is decided by the
  case table of the Python runtime (one character may become several), which is not
  part of the repository: the table is the parameter \<open>unicode_upper\<close>.
\<close>

definition upper_chr :: "(nat \<Rightarrow> py_text) \<Rightarrow> nat \<Rightarrow> py_text" where
  "upper_chr unicode_upper c =
     (if c < 128 then [if 97 \<le> c \<and> c \<le> 122 then c - 32 else c]
      else unicode_upper c)"

definition upper :: "(nat \<Rightarrow> py_text) \<Rightarrow> py_text \<Rightarrow> py_text" where
  "upper unicode_upper s = concat (map (upper_chr unicode_upper) s)"

text \<open>
  \<^verbatim>\<open>make_netbios_name(s)\<close>, lines 96 to 98. The index \<^verbatim>\<open>[0]\<close> raises IndexError on an
  empty list; that branch is kept, and shown below never to be taken.
\<close>

definition make_netbios_name :: "(nat \<Rightarrow> py_text) \<Rightarrow> py_text \<Rightarrow> py_error + py_text" where
  "make_netbios_name unicode_upper s =
     (case split_sep (of_char (CHR ''.'')) s of
        [] \<Rightarrow> Inl IndexError
      | first # _ \<Rightarrow>
          Inr (take 15
                (join_empty [[c]. c \<leftarrow> upper unicode_upper first,
                                  c \<in> set (text_of ALLOWED_NETBIOS_CHARS)])))"

subsection \<open>The derivation and the validity predicate as the specification words them\<close>

text \<open>The character class \<^verbatim>\<open>[A-Z0-9]\<close>, by code point.\<close>

definition in_AZ09 :: "char \<Rightarrow> bool" where
  "in_AZ09 c =
     ((65 \<le> (of_char c :: nat) \<and> (of_char c :: nat) \<le> 90) \<or>
      (48 \<le> (of_char c :: nat) \<and> (of_char c :: nat) \<le> 57))"

definition code_point_in_AZ09 :: "nat \<Rightarrow> bool" where
  "code_point_in_AZ09 c = ((65 \<le> c \<and> c \<le> 90) \<or> (48 \<le> c \<and> c \<le> 57))"

text \<open>
  Uppercasing, as the specification means it: a letter of the lower-case alphabet is
  replaced by the letter at the same place of the upper-case alphabet, any other
  ASCII character stays, and a character beyond ASCII is replaced by what the case
  table gives for it.
\<close>

definition uppercase_of :: "nat \<Rightarrow> nat" where
  "uppercase_of c =
     (case map_of (zip (text_of ''abcdefghijklmnopqrstuvwxyz'')
                       (text_of ''ABCDEFGHIJKLMNOPQRSTUVWXYZ'')) c of
        Some u \<Rightarrow> u
      | None \<Rightarrow> c)"

definition uppercased :: "(nat \<Rightarrow> py_text) \<Rightarrow> py_text \<Rightarrow> py_text" where
  "uppercased unicode_upper s =
     concat (map (\<lambda>c. if c < 128 then [uppercase_of c] else unicode_upper c) s)"

text \<open>
  The specification's \<^verbatim>\<open>derive_netbios\<close>: the label before the first dot (code point
  46), uppercased, filtered to \<^verbatim>\<open>[A-Z0-9]\<close>, cut to 15 characters.
\<close>

definition derive_netbios :: "(nat \<Rightarrow> py_text) \<Rightarrow> py_text \<Rightarrow> py_text" where
  "derive_netbios unicode_upper fqdn =
     take 15 (filter code_point_in_AZ09
               (uppercased unicode_upper (takeWhile (\<lambda>c. c \<noteq> 46) fqdn)))"

text \<open>
  A case table with three entries beyond ASCII whose capitals are ASCII letters:
  U+0131 (dotless i) becomes I, U+017F (long s) becomes S, and U+00DF (sharp s)
  becomes SS; every other character stays.
\<close>

definition example_case_table :: "nat \<Rightarrow> py_text" where
  "example_case_table c =
     (if c = 305 then [73] else if c = 383 then [83] else if c = 223 then [83, 83] else [c])"

text \<open>The specification's \<^verbatim>\<open>is_valid_netbios\<close>.\<close>

definition is_valid_netbios :: "string \<Rightarrow> bool" where
  "is_valid_netbios name = (name \<noteq> [] \<and> length name \<le> 15 \<and> list_all in_AZ09 name)"

section \<open>Security identifiers\<close>




text \<open>\<^verbatim>\<open>"%d" % n\<close> and \<^verbatim>\<open>str(n)\<close>: decimal digits, no leading zero, a minus sign below 0.\<close>

definition digit_chr :: "nat \<Rightarrow> char" where
  "digit_chr d = char_of (48 + d)"

fun dec_str :: "nat \<Rightarrow> string" where
  "dec_str n = (if n < 10 then [digit_chr n] else dec_str (n div 10) @ [digit_chr (n mod 10)])"

declare dec_str.simps [simp del]

definition str_of_int :: "int \<Rightarrow> string" where
  "str_of_int i = (if i < 0 then CHR ''-'' # dec_str (nat (- i)) else dec_str (nat i))"



definition dec_value :: "string \<Rightarrow> nat" where
  "dec_value s = foldl (\<lambda>acc c. 10 * acc + (of_char c - 48)) 0 s"

section \<open>Values of the dynamically typed store and of directory attributes\<close>

text \<open>
  The Python values that the state store keeps (a boolean or a string) and the
  \<^verbatim>\<open>None\<close> that stands for a missing one, with Python's truth value: \<^verbatim>\<open>None\<close>,
  \<^verbatim>\<open>False\<close> and the empty string are false.
\<close>

datatype py_value = PNone | PBool bool | PStr string

fun truthy :: "py_value \<Rightarrow> bool" where
  "truthy PNone = False"
| "truthy (PBool b) = b"
| "truthy (PStr s) = (s \<noteq> [])"

section \<open>RID bases\<close>

text \<open>
  An \<^verbatim>\<open>ipaDomainIDRange\<close> entry as \<^verbatim>\<open>__add_rid_bases\<close> reads it: its DN and the
  single values of three integer attributes. The two RID bases may be missing
  (\<^verbatim>\<open>single_value.get\<close> then gives \<^verbatim>\<open>None\<close>); the schema makes the range size
  mandatory.
\<close>

record id_range =
  range_dn :: string
  ipaBaseRID :: "int option"
  ipaSecondaryBaseRID :: "int option"
  ipaIDRangeSize :: int

text \<open>Python's truth value of an optional integer: \<^verbatim>\<open>None\<close> and 0 are false.\<close>

fun truthy_int :: "int option \<Rightarrow> bool" where
  "truthy_int None = False"
| "truthy_int (Some n) = (n \<noteq> 0)"

text \<open>One element of the modification list handed to \<^verbatim>\<open>modify_s\<close>.\<close>

datatype ldap_mod = MOD_ADD string string | MOD_REPLACE string string

text \<open>
  What \<^verbatim>\<open>modify_s\<close> can do: return, raise \<^verbatim>\<open>ldap.CONSTRAINT_VIOLATION\<close> (with the
  server's \<^verbatim>\<open>info\<close> text), or raise another LDAP error.
\<close>

datatype modify_outcome = Modified | CONSTRAINT_VIOLATION string | OtherLDAPError string

text \<open>
  The directory connection as the RID step uses it: the answer of the one search for
  \<^verbatim>\<open>ipaDomainIDRange\<close> entries (a list, or the exception raised), and the server's
  verdict on a modification.
\<close>

record range_conn =
  get_entries :: "py_error + id_range list"
  modify_s :: "string \<Rightarrow> ldap_mod list \<Rightarrow> modify_outcome"

text \<open>
  What a step did: the exception it raised if any, the \<^verbatim>\<open>modify_s\<close> calls it sent
  to the directory, and the messages it printed with \<^verbatim>\<open>print_msg\<close>.
\<close>

record step_report =
  raised :: "py_error option"
  modify_calls :: "(string \<times> ldap_mod list) list"
  messages :: "string list"

definition no_rid_base_set :: "id_range \<Rightarrow> bool" where
  "no_rid_base_set r = (\<not> (truthy_int (ipaBaseRID r) \<or> truthy_int (ipaSecondaryBaseRID r)))"

text \<open>The three \<^verbatim>\<open>RuntimeError\<close>s of the step, under the names the specification uses.\<close>

definition TooManyCandidateRanges :: py_error where
  "TooManyCandidateRanges = RuntimeError ''Too many ID ranges\<newline>''"

definition BasesTooClose :: py_error where
  "BasesTooClose = RuntimeError ''RID bases too close.\<newline>''"

definition ConstraintViolation :: py_error where
  "ConstraintViolation = RuntimeError ''Constraint violation.\<newline>''"

text \<open>
  \<^verbatim>\<open>__add_rid_bases\<close>, lines 314 to 371. An exception of the search leaves the
  \<^verbatim>\<open>try\<close> block as it is (\<^verbatim>\<open>NotFound\<close> is logged and raised again). The comparison
  before the modification is the source's: \<^verbatim>\<open>abs(rid_base - secondary_rid_base) > size\<close>.
\<close>

definition add_rid_bases :: "range_conn \<Rightarrow> int \<Rightarrow> int \<Rightarrow> step_report" where
  "add_rid_bases conn rid_base secondary_rid_base =
     (case get_entries conn of
        Inl e \<Rightarrow> \<lparr>raised = Some e, modify_calls = [], messages = []\<rparr>
      | Inr ranges \<Rightarrow>
          let ranges_with_no_rid_base = filter no_rid_base_set ranges in
          if length ranges_with_no_rid_base = 0 then
            \<lparr>raised = None, modify_calls = [],
             messages = [''RID bases already set, nothing to do'']\<rparr>
          else if length ranges_with_no_rid_base \<noteq> 1 then
            \<lparr>raised = Some TooManyCandidateRanges, modify_calls = [], messages = []\<rparr>
          else
            let local_range = ranges_with_no_rid_base ! 0;
                size = ipaIDRangeSize local_range
            in
            if \<bar>rid_base - secondary_rid_base\<bar> > size then
              \<lparr>raised = Some BasesTooClose, modify_calls = [],
               messages = [''Primary and secondary RID base are too close. '' @
                           ''They have to differ at least by '' @ str_of_int size @ ''.'']\<rparr>
            else
              let mods = [MOD_ADD ''ipaBaseRID'' (str_of_int rid_base),
                          MOD_ADD ''ipaSecondaryBaseRID'' (str_of_int secondary_rid_base)]
              in
              (case modify_s conn (range_dn local_range) mods of
                 Modified \<Rightarrow>
                   \<lparr>raised = None, modify_calls = [(range_dn local_range, mods)],
                    messages = []\<rparr>
               | CONSTRAINT_VIOLATION info \<Rightarrow>
                   \<lparr>raised = Some ConstraintViolation,
                    modify_calls = [(range_dn local_range, mods)],
                    messages = [''Failed to add RID bases to the local range '' @
                                ''object:\<newline>  '' @ info]\<rparr>
               | OtherLDAPError msg \<Rightarrow>
                   \<lparr>raised = Some (LDAPError msg),
                    modify_calls = [(range_dn local_range, mods)], messages = []\<rparr>))"

section \<open>SIDs of the admin user and the admins group\<close>

text \<open>
  A directory entry maps an attribute name to its values (no value: the attribute is
  missing). The directory maps a DN to its entry; \<open>refuses\<close> is the server's verdict
  on a modification it is asked to make (schema, access control, a value that exists).
\<close>

type_synonym entry = "string \<Rightarrow> string list"

record directory =
  entries :: "string \<rightharpoonup> entry"
  refuses :: "string \<Rightarrow> ldap_mod list \<Rightarrow> bool"

text \<open>
  \<^verbatim>\<open>entry.single_value.get(name)\<close>: \<^verbatim>\<open>None\<close> for a missing attribute, the value of a
  single-valued one, and a \<^verbatim>\<open>ValueError\<close> when the attribute has several values.
\<close>

fun single_value_get :: "entry \<Rightarrow> string \<Rightarrow> py_error + string option" where
  "single_value_get e name =
     (case e name of
        [] \<Rightarrow> Inr None
      | [v] \<Rightarrow> Inr (Some v)
      | _ \<Rightarrow> Inl ValueError)"

text \<open>
  The server applying a modification list: \<^verbatim>\<open>MOD_ADD\<close> adds a value to the attribute,
  \<^verbatim>\<open>MOD_REPLACE\<close> puts the value in place of the old ones. A modification that is
  refused, or that names no entry, raises and changes nothing.
\<close>

fun apply_mod :: "entry \<Rightarrow> ldap_mod \<Rightarrow> entry" where
  "apply_mod e (MOD_ADD name v) = e(name := e name @ [v])"
| "apply_mod e (MOD_REPLACE name v) = e(name := [v])"

definition dir_modify_s :: "directory \<Rightarrow> string \<Rightarrow> ldap_mod list \<Rightarrow> py_error + directory" where
  "dir_modify_s d dn mods =
     (case entries d dn of
        None \<Rightarrow> Inl (LDAPError ''NO_SUCH_OBJECT'')
      | Some e \<Rightarrow>
          if refuses d dn mods then Inl (LDAPError ''refused'')
          else Inr (d\<lparr>entries := (entries d)(dn \<mapsto> foldl apply_mod e mods)\<rparr>))"

text \<open>The class constants of \<^verbatim>\<open>ADTRUSTInstance\<close>, lines 102 to 109.\<close>

definition ATTR_SID :: string where
  "ATTR_SID = ''ipaNTSecurityIdentifier''"

definition OBJC_USER :: string where
  "OBJC_USER = ''ipaNTUserAttrs''"

definition OBJC_GROUP :: string where
  "OBJC_GROUP = ''ipaNTGroupAttrs''"

text \<open>
  The part of \<^verbatim>\<open>api.env\<close> and of the instance that the DNs are built from. A DN is
  written as its string, the RDNs joined by commas.
\<close>

record env =
  suffix :: string
  domain_name :: string
  container_user :: string
  container_group :: string
  container_cifsdomains :: string

definition smb_dom_dn :: "env \<Rightarrow> string" where
  "smb_dom_dn ev = ''cn='' @ domain_name ev @ '','' @ container_cifsdomains ev @ '','' @ suffix ev"

definition admin_dn :: "env \<Rightarrow> string" where
  "admin_dn ev = ''uid=admin,'' @ container_user ev @ '','' @ suffix ev"

definition admin_group_dn :: "env \<Rightarrow> string" where
  "admin_group_dn ev = ''cn=admins,'' @ container_group ev @ '','' @ suffix ev"

text \<open>A report that only prints one message.\<close>

definition only_msg :: "string \<Rightarrow> step_report" where
  "only_msg m = \<lparr>raised = None, modify_calls = [], messages = [m]\<rparr>"

text \<open>
  One of the two blocks at the end of \<^verbatim>\<open>__add_admin_sids\<close>, lines 223 to 231 and 233
  to 241: skip an entry whose SID is set, otherwise send the modification and swallow
  every exception of it. The result is the report so far, extended, and the directory
  after the call.
\<close>

definition set_sid_unless_present ::
  "string option \<Rightarrow> string \<Rightarrow> ldap_mod list \<Rightarrow> string \<Rightarrow> string \<Rightarrow>
   step_report \<times> directory \<Rightarrow> step_report \<times> directory" where
  "set_sid_unless_present current dn mods already_msg failed_msg acc =
     (case acc of (rep, d) \<Rightarrow>
        if current \<noteq> None \<and> current \<noteq> Some [] then
          (rep\<lparr>messages := messages rep @ [already_msg]\<rparr>, d)
        else
          (case dir_modify_s d dn mods of
             Inr d' \<Rightarrow> (rep\<lparr>modify_calls := modify_calls rep @ [(dn, mods)]\<rparr>, d')
           | Inl _ \<Rightarrow>
               (rep\<lparr>modify_calls := modify_calls rep @ [(dn, mods)],
                    messages := messages rep @ [failed_msg]\<rparr>, d)))"

text \<open>
  \<^verbatim>\<open>__add_admin_sids\<close>, lines 185 to 241. Both entries are read before either is
  written. A \<^verbatim>\<open>ValueError\<close> of \<^verbatim>\<open>single_value.get\<close> is outside every \<^verbatim>\<open>try\<close> and
  leaves the step.
\<close>

definition add_admin_sids :: "env \<Rightarrow> directory \<Rightarrow> step_report \<times> directory" where
  "add_admin_sids ev d =
     (case entries d (smb_dom_dn ev) of
        None \<Rightarrow> (only_msg ''Samba domain object not found'', d)
      | Some dom_entry \<Rightarrow>
     (case single_value_get dom_entry ATTR_SID of
        Inl e \<Rightarrow> (\<lparr>raised = Some e, modify_calls = [], messages = []\<rparr>, d)
      | Inr None \<Rightarrow> (only_msg ''Samba domain object does not have a SID'', d)
      | Inr (Some dom_sid) \<Rightarrow>
     if dom_sid = [] then (only_msg ''Samba domain object does not have a SID'', d) else
     (case entries d (admin_dn ev) of
        None \<Rightarrow> (only_msg ''IPA admin object not found'', d)
      | Some admin_entry \<Rightarrow>
     (case entries d (admin_group_dn ev) of
        None \<Rightarrow> (only_msg ''IPA admin group object not found'', d)
      | Some admin_group_entry \<Rightarrow>
     (case single_value_get admin_entry ATTR_SID of
        Inl e \<Rightarrow> (\<lparr>raised = Some e, modify_calls = [], messages = []\<rparr>, d)
      | Inr admin_sid \<Rightarrow>
     (case set_sid_unless_present admin_sid (admin_dn ev)
             [MOD_ADD ''objectclass'' OBJC_USER, MOD_ADD ATTR_SID (dom_sid @ ''-500'')]
             ''Admin SID already set, nothing to do''
             ''Failed to modify IPA admin object''
             (\<lparr>raised = None, modify_calls = [], messages = []\<rparr>, d) of
        (rep1, d1) \<Rightarrow>
     (case single_value_get admin_group_entry ATTR_SID of
        Inl e \<Rightarrow> (rep1\<lparr>raised := Some e\<rparr>, d1)
      | Inr group_sid \<Rightarrow>
          set_sid_unless_present group_sid (admin_group_dn ev)
            [MOD_ADD ''objectclass'' OBJC_GROUP, MOD_ADD ATTR_SID (dom_sid @ ''-512'')]
            ''Admin group SID already set, nothing to do''
            ''Failed to modify IPA admin group object''
            (rep1, d1))))))))"

text \<open>The SID an entry of the directory has, if it has exactly one.\<close>

definition sid_of :: "directory \<Rightarrow> string \<Rightarrow> string option" where
  "sid_of d dn =
     (case entries d dn of
        None \<Rightarrow> None
      | Some e \<Rightarrow> (case e ATTR_SID of [v] \<Rightarrow> Some v | _ \<Rightarrow> None))"

text \<open>
  The entries that the step takes to have no SID: \<^verbatim>\<open>single_value.get\<close> gives
  \<^verbatim>\<open>None\<close> or the empty string, both false in Python.
\<close>

definition has_no_sid :: "entry \<Rightarrow> bool" where
  "has_no_sid e = (e ATTR_SID = [] \<or> e ATTR_SID = [[]])"

subsection \<open>An example deployment\<close>

definition example_env :: env where
  "example_env =
     \<lparr>suffix = ''dc=example,dc=test'', domain_name = ''example.test'',
      container_user = ''cn=users,cn=accounts'', container_group = ''cn=groups,cn=accounts'',
      container_cifsdomains = ''cn=ad,cn=etc''\<rparr>"

definition no_attrs :: entry where
  "no_attrs = (\<lambda>name. [])"

definition example_dom_entry :: entry where
  "example_dom_entry = no_attrs(ATTR_SID := [''S-1-5-21-1-2-3''])"

text \<open>A directory with the domain object and the admin user, but no admins group.\<close>

definition example_dir_without_group :: directory where
  "example_dir_without_group =
     \<lparr>entries = [smb_dom_dn example_env \<mapsto> example_dom_entry,
                 admin_dn example_env \<mapsto> no_attrs],
      refuses = (\<lambda>dn mods. False)\<rparr>"

text \<open>A directory with all three entries, the group already holding a SID.\<close>

definition example_dir :: directory where
  "example_dir =
     \<lparr>entries = [smb_dom_dn example_env \<mapsto> example_dom_entry,
                 admin_dn example_env \<mapsto> no_attrs,
                 admin_group_dn example_env \<mapsto> no_attrs(ATTR_SID := [''S-1-5-21-1-2-3-512''])],
      refuses = (\<lambda>dn mods. False)\<rparr>"

text \<open>A directory with all three entries, neither the user nor the group holding a SID.\<close>

definition example_dir_fresh :: directory where
  "example_dir_fresh =
     \<lparr>entries = [smb_dom_dn example_env \<mapsto> example_dom_entry,
                 admin_dn example_env \<mapsto> no_attrs,
                 admin_group_dn example_env \<mapsto> no_attrs],
      refuses = (\<lambda>dn mods. False)\<rparr>"

text \<open>The same entries on a server that refuses every write to the admins group.\<close>

definition example_dir_refusing_group :: directory where
  "example_dir_refusing_group =
     \<lparr>entries = [smb_dom_dn example_env \<mapsto> example_dom_entry,
                 admin_dn example_env \<mapsto> no_attrs,
                 admin_group_dn example_env \<mapsto> no_attrs],
      refuses = (\<lambda>dn mods. dn = admin_group_dn example_env)\<rparr>"

section \<open>Uninstalling: the state store and the services\<close>

text \<open>
  Modelled from the spec: the state store's \<^verbatim>\<open>restore_state\<close> of
  ipapython/sysrestore.py, which is not among the sources. "Returns and deletes the
  stored record if present; if absent, returns a sentinel meaning nothing to restore."
  The sentinel is Python's \<^verbatim>\<open>None\<close>.
\<close>

type_synonym state_store = "string \<times> string \<rightharpoonup> py_value"

definition restore_state :: "state_store \<Rightarrow> string \<Rightarrow> string \<Rightarrow> py_value \<times> state_store" where
  "restore_state st namespace key =
     (case st (namespace, key) of
        None \<Rightarrow> (PNone, st)
      | Some v \<Rightarrow> (v, st((namespace, key) := None)))"

text \<open>The calls \<^verbatim>\<open>uninstall\<close> makes to the service manager and to the SELinux task.\<close>

datatype svc_call =
    Stop string
  | Disable string
  | SetSELinuxBooleans "(string \<times> py_value) list"

text \<open>
  A \<^verbatim>\<open>try\<close> block of calls with \<^verbatim>\<open>except Exception: pass\<close>: the calls are made in
  order up to and including the first that raises.
\<close>

fun try_calls :: "(svc_call \<Rightarrow> bool) \<Rightarrow> svc_call list \<Rightarrow> svc_call list" where
  "try_calls fails [] = []"
| "try_calls fails (c # cs) = (if fails c then [c] else c # try_calls fails cs)"

text \<open>
  \<^verbatim>\<open>uninstall\<close>, lines 869 to 913: what it restores from the state store and which
  calls it makes, in order. \<^verbatim>\<open>self.restore_state(key)\<close> reads the namespace of the
  service, \<^verbatim>\<open>smb\<close>. The removal of files and keys that follows touches neither the
  store nor a service and is left out.
\<close>

definition uninstall :: "(svc_call \<Rightarrow> bool) \<Rightarrow> state_store \<Rightarrow> svc_call list \<times> state_store" where
  "uninstall fails st0 =
     (case restore_state st0 ''smb'' ''running'' of (_, st1) \<Rightarrow>
      case restore_state st1 ''smb'' ''enabled'' of (_, st2) \<Rightarrow>
      let smb_calls = try_calls fails
            [Stop ''smb'', Disable ''smb'', Stop ''winbind'', Disable ''winbind'']
      in
      case restore_state st2 ''oddjobd'' ''running'' of (was_running, st3) \<Rightarrow>
      let stop_calls = (if \<not> truthy was_running then [Stop ''oddjobd''] else [])
      in
      case restore_state st3 ''oddjobd'' ''enabled'' of (was_enabled, st4) \<Rightarrow>
      let disable_calls = (if \<not> truthy was_enabled then [Disable ''oddjobd''] else [])
      in
      case restore_state st4 ''smb'' ''samba_portmapper'' of (boolean_state, st5) \<Rightarrow>
        (smb_calls @ stop_calls @ disable_calls @
           [SetSELinuxBooleans [(''samba_portmapper'', boolean_state)]],
         st5))"

section \<open>The installation steps\<close>

text \<open>The methods that \<^verbatim>\<open>create_instance\<close> registers as steps.\<close>

datatype step_method =
    stop_smbd
  | create_samba_domain_object
  | write_smb_registry
  | write_smb_conf
  | setup_principal
  | setup_group_membership
  | check_replica
  | add_s4u2proxy_target
  | add_admin_sids_step
  | add_rid_bases_step
  | update_krb5_conf
  | add_cldap_module
  | add_sidgen_task
  | enable_smbd
  | add_dns_service_records
  | enable_compat_tree
  | restart_dirsrv
  | add_fallback_group
  | add_default_trust_view
  | configure_selinux_for_smbd
  | enable_and_start_oddjobd
  | start_cifs
  | add_sids_step

type_synonym step = "string \<times> step_method"

text \<open>
  The list that the calls of \<^verbatim>\<open>self.step(label, method)\<close> in \<^verbatim>\<open>create_instance\<close>,
  lines 831 to 865, build, under the two flags that decide the optional steps.
\<close>

definition create_instance_steps :: "bool \<Rightarrow> bool \<Rightarrow> step list" where
  "create_instance_steps enable_compat add_sids =
     [(''stopping smbd'', stop_smbd),
      (''creating samba domain object'', create_samba_domain_object),
      (''creating samba config registry'', write_smb_registry),
      (''writing samba config file'', write_smb_conf),
      (''adding cifs Kerberos principal'', setup_principal),
      (''adding cifs and host Kerberos principals to the adtrust agents group'',
         setup_group_membership),
      (''check for cifs services defined on other replicas'', check_replica),
      (''adding cifs principal to S4U2Proxy targets'', add_s4u2proxy_target),
      (''adding admin(group) SIDs'', add_admin_sids_step),
      (''adding RID bases'', add_rid_bases_step),
      (''updating Kerberos config'', update_krb5_conf),
      (''activating CLDAP plugin'', add_cldap_module),
      (''activating sidgen task'', add_sidgen_task),
      (''configuring smbd to start on boot'', enable_smbd),
      (''adding special DNS service records'', add_dns_service_records)]
     @ (if enable_compat then
          [(''enabling trusted domains support for older clients via Schema Compatibility plugin'',
              enable_compat_tree)]
        else [])
     @ [(''restarting Directory Server to take MS PAC and LDAP plugins changes into account'',
           restart_dirsrv),
        (''adding fallback group'', add_fallback_group),
        (''adding Default Trust View'', add_default_trust_view),
        (''setting SELinux booleans'', configure_selinux_for_smbd),
        (''enabling oddjobd'', enable_and_start_oddjobd),
        (''starting CIFS services'', start_cifs)]
     @ (if add_sids then
          [(''adding SIDs to existing users and groups'', add_sids_step)]
        else [])"

text \<open>
  Modelled from the spec: the step orchestrator, \<^verbatim>\<open>start_creation\<close> of
  ipaserver/install/service.py, which is not among the sources. "Executes steps
  strictly in list order. Before each step, it announces the step's label. It invokes
  the step's action with no arguments. If a step's action reports a fatal error, the
  orchestrator stops immediately: no subsequent steps run. The failure is propagated
  to the caller with the offending step's label attached."

  An action takes the state of the system and returns the fatal error it reports, if
  any, and the state it leaves. The orchestrator returns its verdict, the steps it
  ran in order, and the final state.
\<close>

datatype 'e run_result = Completed | StepFailure string 'e

fun run_steps ::
  "(step_method \<Rightarrow> 's \<Rightarrow> 'e option \<times> 's) \<Rightarrow> step list \<Rightarrow> 's \<Rightarrow> step list
   \<Rightarrow> 'e run_result \<times> step list \<times> 's" where
  "run_steps action [] s executed = (Completed, executed, s)"
| "run_steps action ((label, m) # rest) s executed =
     (case action m s of
        (Some e, s') \<Rightarrow> (StepFailure label e, executed @ [(label, m)], s')
      | (None, s') \<Rightarrow> run_steps action rest s' (executed @ [(label, m)]))"

text \<open>\<^verbatim>\<open>create_instance\<close>: build the list, then run it.\<close>

definition create_instance ::
  "(step_method \<Rightarrow> 's \<Rightarrow> 'e option \<times> 's) \<Rightarrow> bool \<Rightarrow> bool \<Rightarrow> 's \<Rightarrow> 'e run_result \<times> step list \<times> 's" where
  "create_instance action enable_compat add_sids s =
     run_steps action (create_instance_steps enable_compat add_sids) s []"

chapter \<open>Properties\<close>

section \<open>NetBIOS names\<close>

lemma allowed_iff_in_AZ09: "c \<in> set ALLOWED_NETBIOS_CHARS \<longleftrightarrow> in_AZ09 c"
  by (cases c) (simp add: ALLOWED_NETBIOS_CHARS_def ascii_uppercase_def digits_def in_AZ09_def)

lemma allowed_code_point_iff:
  "c \<in> set (text_of ALLOWED_NETBIOS_CHARS) \<longleftrightarrow> code_point_in_AZ09 c"
  unfolding text_of_def ALLOWED_NETBIOS_CHARS_def ascii_uppercase_def digits_def
    code_point_in_AZ09_def
  by (simp, arith)

lemma uppercase_of_ascii: "uppercase_of c = (if 97 \<le> c \<and> c \<le> 122 then c - 32 else c)"
  unfolding uppercase_of_def text_of_def
  by (simp, arith)

lemma join_comprehension: "join_empty [[c]. c \<leftarrow> s, P c] = filter P s"
  by (induction s) (simp_all add: join_empty_def)

lemma split_sep_first:
  "\<exists>ws. split_sep sep s = takeWhile (\<lambda>c. c \<noteq> sep) s # ws"
  by (induction s) auto

lemma upper_chr_uppercase_of:
  "upper_chr unicode_upper = (\<lambda>c. if c < 128 then [uppercase_of c] else unicode_upper c)"
  by (rule ext) (simp add: upper_chr_def uppercase_of_ascii)

lemma upper_uppercased: "upper unicode_upper s = uppercased unicode_upper s"
  by (simp only: upper_def uppercased_def upper_chr_uppercase_of)

lemma make_netbios_name_unfold:
  "make_netbios_name unicode_upper s =
     Inr (take 15 (filter (\<lambda>c. c \<in> set (text_of ALLOWED_NETBIOS_CHARS))
            (upper unicode_upper (takeWhile (\<lambda>c. c \<noteq> 46) s))))"
proof -
  have dot: "of_char (CHR ''.'') = (46::nat)" by simp
  obtain ws where split: "split_sep (46::nat) s = takeWhile (\<lambda>c. c \<noteq> 46) s # ws"
    using split_sep_first [of 46 s] by blast
  show ?thesis
    by (simp only: make_netbios_name_def dot split list.case join_comprehension)
qed

lemma upper_ascii_any_table:
  "\<forall>c \<in> set s. c < 128 \<Longrightarrow> upper unicode_upper s = upper other_table s"
  by (induction s) (simp_all add: upper_def upper_chr_def)

text \<open>
  C4. For every input, text or byte string, and whatever the case table of the runtime
  does beyond ASCII, \<^verbatim>\<open>make_netbios_name\<close> returns (it never raises: the result is
  an \<open>Inr\<close>) the first label of its argument, the part before the first dot,
  uppercased, with every character outside \<^verbatim>\<open>[A-Z0-9]\<close> removed, cut to 15
  characters. Uppercasing is stated on its own, by the place of a letter in the
  alphabet. Being a function of its argument alone, the derivation is pure and
  deterministic.
\<close>

theorem make_netbios_name_refines:
  "make_netbios_name unicode_upper fqdn = Inr (derive_netbios unicode_upper fqdn)"
  by (simp only: make_netbios_name_unfold derive_netbios_def upper_uppercased
      allowed_code_point_iff)

theorem make_netbios_name_refines_witness:
  "make_netbios_name example_case_table ([305, 112, 97, 223] @ text_of ''-01.example.test'')
     = Inr (text_of ''IPASS01'')"
proof -
  have "derive_netbios example_case_table ([305, 112, 97, 223] @ text_of ''-01.example.test'')
          = text_of ''IPASS01''"
    by (simp add: derive_netbios_def uppercased_def uppercase_of_ascii example_case_table_def
        code_point_in_AZ09_def text_of_def)
  with make_netbios_name_refines
         [of example_case_table "[305, 112, 97, 223] @ text_of ''-01.example.test''"]
  show ?thesis by simp
qed

text \<open>
  C9. For every string, \<^verbatim>\<open>check_netbios_name\<close> is true exactly when the string is
  not empty, has at most 15 characters, and all of them are in \<^verbatim>\<open>[A-Z0-9]\<close>.
\<close>

theorem check_netbios_name_iff:
  "check_netbios_name name \<longleftrightarrow> is_valid_netbios name"
proof -
  have "filter (\<lambda>c. c \<notin> set ALLOWED_NETBIOS_CHARS) name = [] \<longleftrightarrow> list_all in_AZ09 name"
    by (simp add: filter_empty_conv allowed_iff_in_AZ09 list_all_iff)
  then show ?thesis
    by (auto simp add: check_netbios_name_def is_valid_netbios_def join_comprehension
        simp del: concat_eq_Nil_conv)
qed

theorem check_netbios_name_iff_witness:
  "check_netbios_name ''IPA01'' \<and> \<not> check_netbios_name ''ipa-01''"
  using check_netbios_name_iff [of "''IPA01''"] check_netbios_name_iff [of "''ipa-01''"]
  by (simp add: is_valid_netbios_def in_AZ09_def)

lemma example_corp_label:
  "takeWhile (\<lambda>c. c \<noteq> 46) (text_of ''example-corp.test.local'') = text_of ''example-corp''"
  by (simp add: text_of_def)

lemma example_corp_ascii: "\<forall>c \<in> set (text_of ''example-corp''). c < 128"
  by (simp add: text_of_def)

lemma example_corp_upper:
  "upper (\<lambda>c. [c]) (text_of ''example-corp'') = text_of ''EXAMPLE-CORP''"
  by (simp add: upper_def upper_chr_def text_of_def)

lemma example_corp_name:
  "make_netbios_name unicode_upper (text_of ''example-corp.test.local'') = Inr (text_of ''EXAMPLECORP'')"
proof -
  have "upper unicode_upper (text_of ''example-corp'') = text_of ''EXAMPLE-CORP''"
    using upper_ascii_any_table [OF example_corp_ascii, of unicode_upper "\<lambda>c. [c]"]
    by (simp only: example_corp_upper)
  then show ?thesis
    unfolding make_netbios_name_unfold example_corp_label allowed_code_point_iff
    by (simp add: code_point_in_AZ09_def text_of_def)
qed

text \<open>
  C5, as stated: the derivation of \<^verbatim>\<open>example-corp.test.local\<close> would be
  \<^verbatim>\<open>EXAMPLE-CORP\<close>. It is not: the hyphen is outside the allowed characters.
\<close>

theorem example_corp_counterexample:
  "make_netbios_name (\<lambda>c. [c]) (text_of ''example-corp.test.local'') \<noteq> Inr (text_of ''EXAMPLE-CORP'')"
  unfolding example_corp_name by (simp add: text_of_def)

text \<open>
  C5, amended: the derivation of \<^verbatim>\<open>example-corp.test.local\<close> is \<^verbatim>\<open>EXAMPLECORP\<close>,
  and the candidate \<^verbatim>\<open>this-name-is-too-long-to-fit\<close> fails the validity check.
\<close>

theorem example_corp_derivation:
  "make_netbios_name unicode_upper (text_of ''example-corp.test.local'') = Inr (text_of ''EXAMPLECORP'') \<and>
   \<not> check_netbios_name ''this-name-is-too-long-to-fit''"
proof -
  have "\<not> check_netbios_name ''this-name-is-too-long-to-fit''"
    by (simp add: check_netbios_name_def)
  with example_corp_name show ?thesis by blast
qed

section \<open>Security identifiers\<close>






text \<open>The decimal numeral that \<^verbatim>\<open>%d\<close> prints reads back as the number printed.\<close>

lemma of_char_digit_chr: "d < 10 \<Longrightarrow> of_char (digit_chr d) = 48 + d"
  by (simp add: digit_chr_def)

lemma dec_value_snoc: "dec_value (s @ [c]) = 10 * dec_value s + (of_char c - 48)"
  by (simp add: dec_value_def)

lemma dec_value_dec_str: "dec_value (dec_str n) = n"
proof (induction n rule: dec_str.induct)
  case (1 n)
  show ?case
  proof (cases "n < 10")
    case True
    then show ?thesis
      by (subst dec_str.simps) (simp add: dec_value_def of_char_digit_chr)
  next
    case False
    then have "dec_value (dec_str n) = 10 * dec_value (dec_str (n div 10)) + n mod 10"
      by (subst dec_str.simps) (simp add: dec_value_snoc of_char_digit_chr)
    with 1 False show ?thesis by simp
  qed
qed




section \<open>RID bases\<close>

lemma rid_errors_distinct:
  "ConstraintViolation \<noteq> BasesTooClose" "ConstraintViolation \<noteq> TooManyCandidateRanges"
  "BasesTooClose \<noteq> TooManyCandidateRanges"
  by (simp_all add: ConstraintViolation_def BasesTooClose_def TooManyCandidateRanges_def)

text \<open>
  C2. Given the ranges the search returned: when no range is left after the ranges
  with a primary or a secondary RID base are filtered out, the step prints
  "RID bases already set, nothing to do" and returns without raising and without a
  write; when more than one is left, it raises the "Too many ID ranges" error and
  writes nothing.
\<close>

theorem add_rid_bases_candidate_count:
  assumes "get_entries conn = Inr ranges"
  shows "(filter no_rid_base_set ranges = [] \<longrightarrow>
            add_rid_bases conn rid_base secondary_rid_base =
              \<lparr>raised = None, modify_calls = [],
               messages = [''RID bases already set, nothing to do'']\<rparr>)
       \<and> (length (filter no_rid_base_set ranges) > 1 \<longrightarrow>
            raised (add_rid_bases conn rid_base secondary_rid_base) = Some TooManyCandidateRanges
            \<and> modify_calls (add_rid_bases conn rid_base secondary_rid_base) = [])"
  using assms by (simp add: add_rid_bases_def Let_def)

theorem add_rid_bases_candidate_count_witness:
  "add_rid_bases
     \<lparr>get_entries = Inr [\<lparr>range_dn = ''cn=A'', ipaBaseRID = Some 1000, ipaSecondaryBaseRID = Some 100000000,
                         ipaIDRangeSize = 200000\<rparr>],
      modify_s = (\<lambda>dn mods. Modified)\<rparr> 1000000 1300000 =
     \<lparr>raised = None, modify_calls = [], messages = [''RID bases already set, nothing to do'']\<rparr>
   \<and> raised (add_rid_bases
     \<lparr>get_entries = Inr [\<lparr>range_dn = ''cn=A'', ipaBaseRID = None, ipaSecondaryBaseRID = None,
                         ipaIDRangeSize = 200000\<rparr>,
                        \<lparr>range_dn = ''cn=B'', ipaBaseRID = None, ipaSecondaryBaseRID = None,
                         ipaIDRangeSize = 200000\<rparr>],
      modify_s = (\<lambda>dn mods. Modified)\<rparr> 1000000 1300000) = Some TooManyCandidateRanges
   \<and> modify_calls (add_rid_bases
     \<lparr>get_entries = Inr [\<lparr>range_dn = ''cn=A'', ipaBaseRID = None, ipaSecondaryBaseRID = None,
                         ipaIDRangeSize = 200000\<rparr>,
                        \<lparr>range_dn = ''cn=B'', ipaBaseRID = None, ipaSecondaryBaseRID = None,
                         ipaIDRangeSize = 200000\<rparr>],
      modify_s = (\<lambda>dn mods. Modified)\<rparr> 1000000 1300000) = []"
  using add_rid_bases_candidate_count
          [of "\<lparr>get_entries = Inr [\<lparr>range_dn = ''cn=A'', ipaBaseRID = Some 1000,
                                    ipaSecondaryBaseRID = Some 100000000, ipaIDRangeSize = 200000\<rparr>],
                 modify_s = (\<lambda>dn mods. Modified)\<rparr>"
              "[\<lparr>range_dn = ''cn=A'', ipaBaseRID = Some 1000,
                 ipaSecondaryBaseRID = Some 100000000, ipaIDRangeSize = 200000\<rparr>]"
              1000000 1300000]
        add_rid_bases_candidate_count
          [of "\<lparr>get_entries = Inr [\<lparr>range_dn = ''cn=A'', ipaBaseRID = None, ipaSecondaryBaseRID = None,
                         ipaIDRangeSize = 200000\<rparr>,
                        \<lparr>range_dn = ''cn=B'', ipaBaseRID = None, ipaSecondaryBaseRID = None,
                         ipaIDRangeSize = 200000\<rparr>],
                 modify_s = (\<lambda>dn mods. Modified)\<rparr>"
              "[\<lparr>range_dn = ''cn=A'', ipaBaseRID = None, ipaSecondaryBaseRID = None,
                         ipaIDRangeSize = 200000\<rparr>,
                        \<lparr>range_dn = ''cn=B'', ipaBaseRID = None, ipaSecondaryBaseRID = None,
                         ipaIDRangeSize = 200000\<rparr>]"
              1000000 1300000]
  by (simp add: no_rid_base_set_def)

text \<open>
  C8. Whenever the step sent its modification to the directory and the directory
  answered it with a constraint violation, the step raises the "Constraint violation"
  error, which is not the "RID bases too close" error.
\<close>

theorem constraint_violation_surfaced:
  assumes "modify_calls (add_rid_bases conn rid_base secondary_rid_base) = [(dn, mods)]"
      and "modify_s conn dn mods = CONSTRAINT_VIOLATION info"
  shows "raised (add_rid_bases conn rid_base secondary_rid_base) = Some ConstraintViolation
         \<and> ConstraintViolation \<noteq> BasesTooClose"
  using assms
  by (auto simp add: add_rid_bases_def Let_def rid_errors_distinct
      split: sum.splits if_splits modify_outcome.splits)

theorem constraint_violation_surfaced_witness:
  "modify_calls (add_rid_bases
      \<lparr>get_entries = Inr [\<lparr>range_dn = ''cn=A'', ipaBaseRID = None, ipaSecondaryBaseRID = None,
                          ipaIDRangeSize = 200000\<rparr>],
       modify_s = (\<lambda>dn mods. CONSTRAINT_VIOLATION ''overlap'')\<rparr> 1000000 1100000)
     = [(''cn=A'', [MOD_ADD ''ipaBaseRID'' (str_of_int 1000000),
                    MOD_ADD ''ipaSecondaryBaseRID'' (str_of_int 1100000)])]
   \<and> raised (add_rid_bases
      \<lparr>get_entries = Inr [\<lparr>range_dn = ''cn=A'', ipaBaseRID = None, ipaSecondaryBaseRID = None,
                          ipaIDRangeSize = 200000\<rparr>],
       modify_s = (\<lambda>dn mods. CONSTRAINT_VIOLATION ''overlap'')\<rparr> 1000000 1100000)
     = Some ConstraintViolation"
proof -
  have calls: "modify_calls (add_rid_bases
      \<lparr>get_entries = Inr [\<lparr>range_dn = ''cn=A'', ipaBaseRID = None, ipaSecondaryBaseRID = None,
                          ipaIDRangeSize = 200000\<rparr>],
       modify_s = (\<lambda>dn mods. CONSTRAINT_VIOLATION ''overlap'')\<rparr> 1000000 1100000)
     = [(''cn=A'', [MOD_ADD ''ipaBaseRID'' (str_of_int 1000000),
                    MOD_ADD ''ipaSecondaryBaseRID'' (str_of_int 1100000)])]"
    by (simp add: add_rid_bases_def Let_def no_rid_base_set_def)
  from constraint_violation_surfaced [OF calls, of "''overlap''"] calls
  show ?thesis by simp
qed

text \<open>
  What the comparison of line 349 does with exactly one candidate range: bases further
  apart than the range size are refused as too close, and bases at most the range size
  apart are written.
\<close>

lemma add_rid_bases_single_candidate:
  assumes "get_entries conn = Inr ranges" and "filter no_rid_base_set ranges = [r]"
  shows "(\<bar>rid_base - secondary_rid_base\<bar> > ipaIDRangeSize r \<longrightarrow>
            raised (add_rid_bases conn rid_base secondary_rid_base) = Some BasesTooClose
            \<and> modify_calls (add_rid_bases conn rid_base secondary_rid_base) = [])
       \<and> (\<bar>rid_base - secondary_rid_base\<bar> \<le> ipaIDRangeSize r \<longrightarrow>
            modify_calls (add_rid_bases conn rid_base secondary_rid_base) =
              [(range_dn r, [MOD_ADD ''ipaBaseRID'' (str_of_int rid_base),
                             MOD_ADD ''ipaSecondaryBaseRID'' (str_of_int secondary_rid_base)])])"
  using assms
  by (auto simp add: add_rid_bases_def Let_def split: modify_outcome.splits)

text \<open>
  C1, evaluated at the specification's scenario, one candidate range of size 200000
  and primary base 1000000: with secondary base 1300000 the step raises "RID bases too
  close" and writes nothing, and with secondary base 1100000 it writes both bases.
  The claim expects the opposite outcomes.
\<close>

theorem add_rid_bases_inverted_comparison:
  "raised (add_rid_bases
      \<lparr>get_entries = Inr [\<lparr>range_dn = ''cn=A'', ipaBaseRID = None, ipaSecondaryBaseRID = None,
                          ipaIDRangeSize = 200000\<rparr>],
       modify_s = (\<lambda>dn mods. Modified)\<rparr> 1000000 1300000) = Some BasesTooClose
   \<and> modify_calls (add_rid_bases
      \<lparr>get_entries = Inr [\<lparr>range_dn = ''cn=A'', ipaBaseRID = None, ipaSecondaryBaseRID = None,
                          ipaIDRangeSize = 200000\<rparr>],
       modify_s = (\<lambda>dn mods. Modified)\<rparr> 1000000 1300000) = []
   \<and> raised (add_rid_bases
      \<lparr>get_entries = Inr [\<lparr>range_dn = ''cn=A'', ipaBaseRID = None, ipaSecondaryBaseRID = None,
                          ipaIDRangeSize = 200000\<rparr>],
       modify_s = (\<lambda>dn mods. Modified)\<rparr> 1000000 1100000) = None
   \<and> modify_calls (add_rid_bases
      \<lparr>get_entries = Inr [\<lparr>range_dn = ''cn=A'', ipaBaseRID = None, ipaSecondaryBaseRID = None,
                          ipaIDRangeSize = 200000\<rparr>],
       modify_s = (\<lambda>dn mods. Modified)\<rparr> 1000000 1100000) =
       [(''cn=A'', [MOD_ADD ''ipaBaseRID'' ''1000000'',
                    MOD_ADD ''ipaSecondaryBaseRID'' ''1100000''])]"
proof -
  have p: "str_of_int 1000000 = ''1000000''"
    by (simp add: str_of_int_def dec_str.simps digit_chr_def char_of_def bit_0)
  have s: "str_of_int 1100000 = ''1100000''"
    by (simp add: str_of_int_def dec_str.simps digit_chr_def char_of_def bit_0)
  show ?thesis
    unfolding p [symmetric] s [symmetric]
    by (simp add: add_rid_bases_def Let_def no_rid_base_set_def)
qed

section \<open>The installation steps\<close>

lemma run_steps_stops_at_first_failure:
  assumes "k < length steps"
      and "run_steps action (take k steps) s executed = (Completed, executed', s_k)"
      and "action (snd (steps ! k)) s_k = (Some e, s')"
  shows "run_steps action steps s executed =
           (StepFailure (fst (steps ! k)) e, executed @ take (Suc k) steps, s')"
  using assms
proof (induction k arbitrary: steps s executed)
  case 0
  then obtain label m rest where steps: "steps = (label, m) # rest"
    by (cases steps) auto
  with 0 show ?case by simp
next
  case (Suc k)
  then obtain label m rest where steps: "steps = (label, m) # rest"
    by (cases steps) auto
  from Suc.prems(2) steps obtain s1 where
    first: "action m s = (None, s1)" and
    rest: "run_steps action (take k rest) s1 (executed @ [(label, m)]) = (Completed, executed', s_k)"
    by (auto split: prod.splits option.splits)
  from Suc.prems(1) steps have k: "k < length rest" by simp
  from Suc.prems(3) steps have fail: "action (snd (rest ! k)) s_k = (Some e, s')" by simp
  from Suc.IH [OF k rest fail] first steps show ?case by simp
qed

lemma create_instance_labels_distinct:
  "distinct (map fst (create_instance_steps enable_compat add_sids))"
  by (cases enable_compat; cases add_sids) (simp_all add: create_instance_steps_def)

text \<open>
  C3. For the step list that \<^verbatim>\<open>create_instance\<close> builds, under either flag, and every
  position \<open>k\<close> in it: if the steps before \<open>k\<close> complete and the action of step \<open>k\<close>
  reports a fatal error in the state they leave, then exactly the steps up to and
  including \<open>k\<close> are run, in order, no later step runs, and the failure returned carries
  the label of step \<open>k\<close>, which no other step of the list has.
\<close>

theorem create_instance_stops_at_failing_step:
  assumes "k < length (create_instance_steps enable_compat add_sids)"
      and "run_steps action (take k (create_instance_steps enable_compat add_sids)) s [] =
             (Completed, executed, s_k)"
      and "action (snd (create_instance_steps enable_compat add_sids ! k)) s_k = (Some e, s')"
  shows "create_instance action enable_compat add_sids s =
           (StepFailure (fst (create_instance_steps enable_compat add_sids ! k)) e,
            take (Suc k) (create_instance_steps enable_compat add_sids), s')
         \<and> (\<forall>j < length (create_instance_steps enable_compat add_sids).
               fst (create_instance_steps enable_compat add_sids ! j) =
               fst (create_instance_steps enable_compat add_sids ! k) \<longrightarrow> j = k)"
proof -
  let ?steps = "create_instance_steps enable_compat add_sids"
  have "create_instance action enable_compat add_sids s =
          (StepFailure (fst (?steps ! k)) e, take (Suc k) ?steps, s')"
    using run_steps_stops_at_first_failure [OF assms] by (simp add: create_instance_def)
  moreover have "j = k" if "j < length ?steps" "fst (?steps ! j) = fst (?steps ! k)" for j
  proof -
    have d: "distinct (map fst ?steps)"
      by (rule create_instance_labels_distinct)
    have "(map fst ?steps ! j = map fst ?steps ! k) = (j = k)"
      by (rule nth_eq_iff_index_eq [OF d]) (use that(1) assms(1) in simp_all)
    moreover have "map fst ?steps ! j = fst (?steps ! j)"
      using that(1) by (rule nth_map)
    moreover have "map fst ?steps ! k = fst (?steps ! k)"
      using assms(1) by (rule nth_map)
    ultimately show ?thesis using that(2) by simp
  qed
  ultimately show ?thesis by blast
qed

theorem create_instance_stops_at_failing_step_witness:
  "create_instance
     (\<lambda>m n. (if m = write_smb_registry then Some ''net conf import failed'' else None, Suc n))
     False False (0::nat) =
   (StepFailure ''creating samba config registry'' ''net conf import failed'',
    [(''stopping smbd'', stop_smbd),
     (''creating samba domain object'', create_samba_domain_object),
     (''creating samba config registry'', write_smb_registry)],
    3)"
proof -
  let ?action = "\<lambda>m n. (if m = write_smb_registry then Some ''net conf import failed'' else None, Suc n)"
  have len: "2 < length (create_instance_steps False False)"
    by (simp add: create_instance_steps_def)
  have pre: "run_steps ?action (take 2 (create_instance_steps False False)) (0::nat) [] =
          (Completed, [(''stopping smbd'', stop_smbd),
                       (''creating samba domain object'', create_samba_domain_object)], 2)"
    by (simp add: create_instance_steps_def)
  have fail: "?action (snd (create_instance_steps False False ! 2)) (2::nat) =
          (Some ''net conf import failed'', 3)"
    by (simp add: create_instance_steps_def)
  from create_instance_stops_at_failing_step [OF len pre fail]
  show ?thesis by (simp add: create_instance_steps_def)
qed

section \<open>Uninstalling\<close>

lemma try_calls_subset: "set (try_calls fails cs) \<subseteq> set cs"
  by (induction cs) auto

lemma fst_restore_state:
  "fst (restore_state st namespace key) =
     (case st (namespace, key) of None \<Rightarrow> PNone | Some v \<Rightarrow> v)"
  by (simp add: restore_state_def split: option.splits)

lemma snd_restore_state:
  "snd (restore_state st namespace key) = st((namespace, key) := None)"
  by (auto simp add: restore_state_def split: option.splits)

lemma uninstall_calls:
  "fst (uninstall fails st) =
     try_calls fails [Stop ''smb'', Disable ''smb'', Stop ''winbind'', Disable ''winbind''] @
     (if \<not> truthy (fst (restore_state st ''oddjobd'' ''running'')) then [Stop ''oddjobd''] else []) @
     (if \<not> truthy (fst (restore_state st ''oddjobd'' ''enabled'')) then [Disable ''oddjobd''] else []) @
     [SetSELinuxBooleans [(''samba_portmapper'', fst (restore_state st ''smb'' ''samba_portmapper''))]]"
  unfolding uninstall_def Let_def case_prod_unfold fst_conv snd_conv
  by (simp only: fst_restore_state snd_restore_state) simp

text \<open>
  What the guards of lines 892 and 898 do: \<^verbatim>\<open>oddjobd\<close> is stopped exactly when the
  restored value of its \<^verbatim>\<open>running\<close> key is false in Python's sense, and disabled
  exactly when the restored value of its \<^verbatim>\<open>enabled\<close> key is; the \<^verbatim>\<open>None\<close> of a
  missing record is such a value. Stopping \<^verbatim>\<open>smb\<close> is attempted whatever the store
  holds.
\<close>

lemma uninstall_oddjobd_calls:
  "(Stop ''oddjobd'' \<in> set (fst (uninstall fails st)) \<longleftrightarrow>
      \<not> truthy (fst (restore_state st ''oddjobd'' ''running'')))
   \<and> (Disable ''oddjobd'' \<in> set (fst (uninstall fails st)) \<longleftrightarrow>
      \<not> truthy (fst (restore_state st ''oddjobd'' ''enabled'')))
   \<and> (fst (restore_state st ''oddjobd'' ''running'') = PNone \<longrightarrow>
        Stop ''oddjobd'' \<in> set (fst (uninstall fails st)))
   \<and> (fst (restore_state st ''oddjobd'' ''enabled'') = PNone \<longrightarrow>
        Disable ''oddjobd'' \<in> set (fst (uninstall fails st)))
   \<and> Stop ''smb'' \<in> set (fst (uninstall fails st))"
proof -
  let ?smb = "try_calls fails [Stop ''smb'', Disable ''smb'', Stop ''winbind'', Disable ''winbind'']"
  have "set ?smb \<subseteq> set [Stop ''smb'', Disable ''smb'', Stop ''winbind'', Disable ''winbind'']"
    by (rule try_calls_subset)
  then have no: "Stop ''oddjobd'' \<notin> set ?smb" "Disable ''oddjobd'' \<notin> set ?smb"
    by auto
  have smb: "Stop ''smb'' \<in> set ?smb" by simp
  from no smb show ?thesis
    unfolding uninstall_calls by auto
qed

text \<open>
  C7, evaluated with an empty state store: both restores of the \<^verbatim>\<open>oddjobd\<close> keys
  report \<^verbatim>\<open>None\<close>, nothing to restore, and \<^verbatim>\<open>uninstall\<close> stops and disables
  \<^verbatim>\<open>oddjobd\<close> all the same, where the claim, and the comment "Restore oddjobd to its
  original state" of line 889, have the service left as it is. The restore of the
  SELinux boolean reports \<^verbatim>\<open>None\<close> too, and that value is handed on to
  \<^verbatim>\<open>set_selinux_booleans\<close>.
\<close>

theorem uninstall_empty_store_stops_oddjobd:
  "fst (restore_state Map.empty ''oddjobd'' ''running'') = PNone
   \<and> fst (restore_state Map.empty ''oddjobd'' ''enabled'') = PNone
   \<and> fst (uninstall (\<lambda>c. False) Map.empty) =
       [Stop ''smb'', Disable ''smb'', Stop ''winbind'', Disable ''winbind'',
        Stop ''oddjobd'', Disable ''oddjobd'',
        SetSELinuxBooleans [(''samba_portmapper'', PNone)]]"
  unfolding uninstall_calls by (simp add: restore_state_def)

section \<open>SIDs of the admin user and the admins group\<close>

lemma admin_dns_distinct:
  "admin_dn ev \<noteq> admin_group_dn ev" "admin_group_dn ev \<noteq> admin_dn ev"
  "admin_dn ev \<noteq> smb_dom_dn ev"
  by (simp_all add: admin_dn_def admin_group_dn_def smb_dom_dn_def)

lemma attr_sid_not_objectclass: "ATTR_SID \<noteq> ''objectclass''"
  by (simp add: ATTR_SID_def)

lemma set_sid_unless_present_calls:
  "modify_calls (fst (set_sid_unless_present cur dn mods already failed (rep, d))) =
     modify_calls rep @ (if cur = None \<or> cur = Some [] then [(dn, mods)] else [])"
  by (simp add: set_sid_unless_present_def split: sum.splits)

lemma set_sid_unless_present_dir:
  "snd (set_sid_unless_present cur dn mods already failed (rep, d)) =
     (if cur = None \<or> cur = Some [] then
        (case dir_modify_s d dn mods of Inr d' \<Rightarrow> d' | Inl e \<Rightarrow> d)
      else d)"
  by (simp add: set_sid_unless_present_def split: sum.splits)

lemma single_value_get_cases:
  "e name = [] \<Longrightarrow> single_value_get e name = Inr None"
  "e name = [v] \<Longrightarrow> single_value_get e name = Inr (Some v)"
  by simp_all

lemma single_value_get_falsy:
  "single_value_get e ATTR_SID = Inr cur \<Longrightarrow> (cur = None \<or> cur = Some []) = has_no_sid e"
  by (auto simp add: has_no_sid_def split: list.splits)

lemma single_value_get_error:
  "single_value_get e ATTR_SID = Inl err \<Longrightarrow> \<not> has_no_sid e \<and> 2 \<le> length (e ATTR_SID)"
  by (auto simp add: has_no_sid_def split: list.splits)

lemma add_admin_sids_writes:
  assumes dom: "entries d (smb_dom_dn ev) = Some dom_entry" "dom_entry ATTR_SID = [S]" "S \<noteq> []"
      and adm: "entries d (admin_dn ev) = Some admin_entry" "length (admin_entry ATTR_SID) \<le> 1"
      and grp: "entries d (admin_group_dn ev) = Some group_entry"
  shows "modify_calls (fst (add_admin_sids ev d)) =
           (if has_no_sid admin_entry
            then [(admin_dn ev, [MOD_ADD ''objectclass'' OBJC_USER, MOD_ADD ATTR_SID (S @ ''-500'')])]
            else []) @
           (if has_no_sid group_entry
            then [(admin_group_dn ev, [MOD_ADD ''objectclass'' OBJC_GROUP, MOD_ADD ATTR_SID (S @ ''-512'')])]
            else [])"
proof -
  obtain cur where cur: "single_value_get admin_entry ATTR_SID = Inr cur"
    using adm(2) by (cases "admin_entry ATTR_SID" rule: list.exhaust) (auto split: list.splits)
  note falsy = single_value_get_falsy [OF cur]
  have domv: "single_value_get dom_entry ATTR_SID = Inr (Some S)"
    using dom(2) by simp
  obtain rep1 d1 where r1: "set_sid_unless_present cur (admin_dn ev)
             [MOD_ADD ''objectclass'' OBJC_USER, MOD_ADD ATTR_SID (S @ ''-500'')]
             ''Admin SID already set, nothing to do''
             ''Failed to modify IPA admin object''
             (\<lparr>raised = None, modify_calls = [], messages = []\<rparr>, d) = (rep1, d1)"
    by (cases "set_sid_unless_present cur (admin_dn ev)
             [MOD_ADD ''objectclass'' OBJC_USER, MOD_ADD ATTR_SID (S @ ''-500'')]
             ''Admin SID already set, nothing to do''
             ''Failed to modify IPA admin object''
             (\<lparr>raised = None, modify_calls = [], messages = []\<rparr>, d)") auto
  have calls1: "modify_calls rep1 =
      (if has_no_sid admin_entry
       then [(admin_dn ev, [MOD_ADD ''objectclass'' OBJC_USER, MOD_ADD ATTR_SID (S @ ''-500'')])]
       else [])"
    using set_sid_unless_present_calls [of cur "admin_dn ev"
        "[MOD_ADD ''objectclass'' OBJC_USER, MOD_ADD ATTR_SID (S @ ''-500'')]"
        "''Admin SID already set, nothing to do''" "''Failed to modify IPA admin object''"
        "\<lparr>raised = None, modify_calls = [], messages = []\<rparr>" d]
    unfolding r1 falsy by simp
  have unfold: "add_admin_sids ev d =
     (case single_value_get group_entry ATTR_SID of
        Inl e \<Rightarrow> (rep1\<lparr>raised := Some e\<rparr>, d1)
      | Inr group_sid \<Rightarrow>
          set_sid_unless_present group_sid (admin_group_dn ev)
            [MOD_ADD ''objectclass'' OBJC_GROUP, MOD_ADD ATTR_SID (S @ ''-512'')]
            ''Admin group SID already set, nothing to do''
            ''Failed to modify IPA admin group object''
            (rep1, d1))"
    unfolding add_admin_sids_def
    by (simp add: dom adm grp cur r1 domv del: single_value_get.simps)
  show ?thesis
  proof (cases "single_value_get group_entry ATTR_SID")
    case (Inl err)
    with single_value_get_error [OF Inl] show ?thesis
      unfolding unfold by (simp add: calls1)
  next
    case (Inr gcur)
    show ?thesis
      unfolding unfold Inr sum.case set_sid_unless_present_calls single_value_get_falsy [OF Inr]
      by (simp add: calls1)
  qed
qed

lemma add_admin_sids_directory:
  assumes dom: "entries d (smb_dom_dn ev) = Some dom_entry" "dom_entry ATTR_SID = [S]" "S \<noteq> []"
      and adm: "entries d (admin_dn ev) = Some admin_entry" "length (admin_entry ATTR_SID) \<le> 1"
      and grp: "entries d (admin_group_dn ev) = Some group_entry"
  shows "\<exists>d1. d1 = (if has_no_sid admin_entry then
                      (case dir_modify_s d (admin_dn ev)
                              [MOD_ADD ''objectclass'' OBJC_USER, MOD_ADD ATTR_SID (S @ ''-500'')] of
                         Inr d' \<Rightarrow> d' | Inl e \<Rightarrow> d)
                    else d)
           \<and> snd (add_admin_sids ev d) =
               (if has_no_sid group_entry then
                  (case dir_modify_s d1 (admin_group_dn ev)
                          [MOD_ADD ''objectclass'' OBJC_GROUP, MOD_ADD ATTR_SID (S @ ''-512'')] of
                     Inr d' \<Rightarrow> d' | Inl e \<Rightarrow> d1)
                else d1)"
proof -
  obtain cur where cur: "single_value_get admin_entry ATTR_SID = Inr cur"
    using adm(2) by (cases "admin_entry ATTR_SID" rule: list.exhaust) (auto split: list.splits)
  note falsy = single_value_get_falsy [OF cur]
  have domv: "single_value_get dom_entry ATTR_SID = Inr (Some S)"
    using dom(2) by simp
  obtain rep1 d1 where r1: "set_sid_unless_present cur (admin_dn ev)
             [MOD_ADD ''objectclass'' OBJC_USER, MOD_ADD ATTR_SID (S @ ''-500'')]
             ''Admin SID already set, nothing to do''
             ''Failed to modify IPA admin object''
             (\<lparr>raised = None, modify_calls = [], messages = []\<rparr>, d) = (rep1, d1)"
    by (cases "set_sid_unless_present cur (admin_dn ev)
             [MOD_ADD ''objectclass'' OBJC_USER, MOD_ADD ATTR_SID (S @ ''-500'')]
             ''Admin SID already set, nothing to do''
             ''Failed to modify IPA admin object''
             (\<lparr>raised = None, modify_calls = [], messages = []\<rparr>, d)") auto
  have d1: "d1 = (if has_no_sid admin_entry then
                      (case dir_modify_s d (admin_dn ev)
                              [MOD_ADD ''objectclass'' OBJC_USER, MOD_ADD ATTR_SID (S @ ''-500'')] of
                         Inr d' \<Rightarrow> d' | Inl e \<Rightarrow> d)
                    else d)"
    using set_sid_unless_present_dir [of cur "admin_dn ev"
        "[MOD_ADD ''objectclass'' OBJC_USER, MOD_ADD ATTR_SID (S @ ''-500'')]"
        "''Admin SID already set, nothing to do''" "''Failed to modify IPA admin object''"
        "\<lparr>raised = None, modify_calls = [], messages = []\<rparr>" d]
    unfolding r1 falsy by simp
  have unfold: "add_admin_sids ev d =
     (case single_value_get group_entry ATTR_SID of
        Inl e \<Rightarrow> (rep1\<lparr>raised := Some e\<rparr>, d1)
      | Inr group_sid \<Rightarrow>
          set_sid_unless_present group_sid (admin_group_dn ev)
            [MOD_ADD ''objectclass'' OBJC_GROUP, MOD_ADD ATTR_SID (S @ ''-512'')]
            ''Admin group SID already set, nothing to do''
            ''Failed to modify IPA admin group object''
            (rep1, d1))"
    unfolding add_admin_sids_def
    by (simp add: dom adm grp cur r1 domv del: single_value_get.simps)
  have "snd (add_admin_sids ev d) =
               (if has_no_sid group_entry then
                  (case dir_modify_s d1 (admin_group_dn ev)
                          [MOD_ADD ''objectclass'' OBJC_GROUP, MOD_ADD ATTR_SID (S @ ''-512'')] of
                     Inr d' \<Rightarrow> d' | Inl e \<Rightarrow> d1)
                else d1)"
  proof (cases "single_value_get group_entry ATTR_SID")
    case (Inl err)
    with single_value_get_error [OF Inl] show ?thesis
      unfolding unfold by simp
  next
    case (Inr gcur)
    show ?thesis
      unfolding unfold Inr sum.case set_sid_unless_present_dir single_value_get_falsy [OF Inr]
      by simp
  qed
  with d1 show ?thesis by blast
qed

lemma add_admin_sids_no_write:
  assumes "entries d (smb_dom_dn ev) = None
           \<or> (\<exists>e. entries d (smb_dom_dn ev) = Some e \<and> has_no_sid e)
           \<or> entries d (admin_dn ev) = None
           \<or> entries d (admin_group_dn ev) = None"
  shows "modify_calls (fst (add_admin_sids ev d)) = [] \<and> snd (add_admin_sids ev d) = d"
  using assms
  by (auto simp add: add_admin_sids_def only_msg_def has_no_sid_def
      split: option.splits sum.splits list.splits if_splits)

lemma example_dir_without_group_entries:
  "entries example_dir_without_group (smb_dom_dn example_env) = Some example_dom_entry"
  "entries example_dir_without_group (admin_dn example_env) = Some no_attrs"
  "entries example_dir_without_group (admin_group_dn example_env) = None"
  by (simp_all add: example_dir_without_group_def example_env_def smb_dom_dn_def admin_dn_def
      admin_group_dn_def)

lemma example_dir_entries:
  "entries example_dir (smb_dom_dn example_env) = Some example_dom_entry"
  "entries example_dir (admin_dn example_env) = Some no_attrs"
  "entries example_dir (admin_group_dn example_env) =
     Some (no_attrs(ATTR_SID := [''S-1-5-21-1-2-3-512'']))"
  "refuses example_dir dn mods = False"
  by (simp_all add: example_dir_def example_env_def smb_dom_dn_def admin_dn_def
      admin_group_dn_def)

lemma add_admin_sids_admin_multi:
  assumes dom: "entries d (smb_dom_dn ev) = Some dom_entry" "dom_entry ATTR_SID = [S]" "S \<noteq> []"
      and adm: "entries d (admin_dn ev) = Some admin_entry" "2 \<le> length (admin_entry ATTR_SID)"
      and grp: "entries d (admin_group_dn ev) = Some group_entry"
  shows "add_admin_sids ev d = (\<lparr>raised = Some ValueError, modify_calls = [], messages = []\<rparr>, d)"
proof -
  have domv: "single_value_get dom_entry ATTR_SID = Inr (Some S)"
    using dom(2) by simp
  have admv: "single_value_get admin_entry ATTR_SID = Inl ValueError"
    using adm(2) by (cases "admin_entry ATTR_SID" rule: list.exhaust) (auto split: list.splits)
  show ?thesis
    unfolding add_admin_sids_def
    by (simp add: dom adm(1) grp domv admv del: single_value_get.simps)
qed

lemma has_no_sid_length: "has_no_sid e \<Longrightarrow> length (e ATTR_SID) \<le> 1"
  by (auto simp add: has_no_sid_def)

lemma add_admin_sids_result:
  assumes dom: "entries d (smb_dom_dn ev) = Some dom_entry" "dom_entry ATTR_SID = [S]" "S \<noteq> []"
      and adm: "entries d (admin_dn ev) = Some admin_entry" "length (admin_entry ATTR_SID) \<le> 1"
      and grp: "entries d (admin_group_dn ev) = Some group_entry"
  shows "(admin_entry ATTR_SID = [] \<and>
          \<not> refuses d (admin_dn ev)
                [MOD_ADD ''objectclass'' OBJC_USER, MOD_ADD ATTR_SID (S @ ''-500'')] \<longrightarrow>
            sid_of (snd (add_admin_sids ev d)) (admin_dn ev) = Some (S @ ''-500''))
       \<and> (group_entry ATTR_SID = [] \<and>
          \<not> refuses d (admin_group_dn ev)
                [MOD_ADD ''objectclass'' OBJC_GROUP, MOD_ADD ATTR_SID (S @ ''-512'')] \<longrightarrow>
            sid_of (snd (add_admin_sids ev d)) (admin_group_dn ev) = Some (S @ ''-512''))
       \<and> (\<not> has_no_sid admin_entry \<longrightarrow>
             entries (snd (add_admin_sids ev d)) (admin_dn ev) = Some admin_entry)
       \<and> (\<not> has_no_sid group_entry \<longrightarrow>
             entries (snd (add_admin_sids ev d)) (admin_group_dn ev) = Some group_entry)"
proof -
  let ?m1 = "[MOD_ADD ''objectclass'' OBJC_USER, MOD_ADD ATTR_SID (S @ ''-500'')]"
  let ?m2 = "[MOD_ADD ''objectclass'' OBJC_GROUP, MOD_ADD ATTR_SID (S @ ''-512'')]"
  from add_admin_sids_directory [OF assms] obtain d1 where
    d1: "d1 = (if has_no_sid admin_entry then
                 (case dir_modify_s d (admin_dn ev) ?m1 of Inr d' \<Rightarrow> d' | Inl e \<Rightarrow> d)
               else d)" and
    d2: "snd (add_admin_sids ev d) =
           (if has_no_sid group_entry then
              (case dir_modify_s d1 (admin_group_dn ev) ?m2 of Inr d' \<Rightarrow> d' | Inl e \<Rightarrow> d1)
            else d1)"
    by blast
  have d1_group: "entries d1 (admin_group_dn ev) = Some group_entry"
    unfolding d1 using grp adm(1)
    by (simp add: dir_modify_s_def admin_dns_distinct)
  have d1_refuses: "refuses d1 = refuses d"
    unfolding d1 using adm(1) by (simp add: dir_modify_s_def)
  have keep_admin: "entries (snd (add_admin_sids ev d)) (admin_dn ev) = entries d1 (admin_dn ev)"
    unfolding d2 using d1_group by (simp add: dir_modify_s_def admin_dns_distinct)
  have c3: "entries (snd (add_admin_sids ev d)) (admin_dn ev) = Some admin_entry"
    if "\<not> has_no_sid admin_entry"
    unfolding keep_admin using that adm(1) by (simp add: d1)
  have c4: "entries (snd (add_admin_sids ev d)) (admin_group_dn ev) = Some group_entry"
    if "\<not> has_no_sid group_entry"
    unfolding d2 using that d1_group by simp
  have c1: "sid_of (snd (add_admin_sids ev d)) (admin_dn ev) = Some (S @ ''-500'')"
    if "admin_entry ATTR_SID = []" "\<not> refuses d (admin_dn ev) ?m1"
  proof -
    have "entries d1 (admin_dn ev) = Some (foldl apply_mod admin_entry ?m1)"
      unfolding d1 using that adm(1) by (simp add: dir_modify_s_def has_no_sid_def)
    then show ?thesis
      using that(1) by (simp add: sid_of_def keep_admin attr_sid_not_objectclass)
  qed
  have c2: "sid_of (snd (add_admin_sids ev d)) (admin_group_dn ev) = Some (S @ ''-512'')"
    if "group_entry ATTR_SID = []" "\<not> refuses d (admin_group_dn ev) ?m2"
  proof -
    have "entries (snd (add_admin_sids ev d)) (admin_group_dn ev) =
            Some (foldl apply_mod group_entry ?m2)"
      unfolding d2 using that d1_group d1_refuses
      by (simp add: dir_modify_s_def has_no_sid_def)
    then show ?thesis
      using that(1) by (simp add: sid_of_def attr_sid_not_objectclass)
  qed
  from c1 c2 c3 c4 show ?thesis by blast
qed

lemma add_admin_sids_existing_entries:
  assumes dom: "entries d (smb_dom_dn ev) = Some dom_entry" "dom_entry ATTR_SID = [S]" "S \<noteq> []"
      and adm: "entries d (admin_dn ev) = Some admin_entry"
      and grp: "entries d (admin_group_dn ev) = Some group_entry"
  shows "(has_no_sid admin_entry \<longrightarrow>
            (admin_dn ev, [MOD_ADD ''objectclass'' OBJC_USER, MOD_ADD ATTR_SID (S @ ''-500'')])
              \<in> set (modify_calls (fst (add_admin_sids ev d))))
       \<and> (admin_entry ATTR_SID = [] \<and>
          \<not> refuses d (admin_dn ev)
                [MOD_ADD ''objectclass'' OBJC_USER, MOD_ADD ATTR_SID (S @ ''-500'')] \<longrightarrow>
            sid_of (snd (add_admin_sids ev d)) (admin_dn ev) = Some (S @ ''-500''))
       \<and> (length (admin_entry ATTR_SID) \<le> 1 \<and> has_no_sid group_entry \<longrightarrow>
            (admin_group_dn ev, [MOD_ADD ''objectclass'' OBJC_GROUP, MOD_ADD ATTR_SID (S @ ''-512'')])
              \<in> set (modify_calls (fst (add_admin_sids ev d))))
       \<and> (length (admin_entry ATTR_SID) \<le> 1 \<and> group_entry ATTR_SID = [] \<and>
          \<not> refuses d (admin_group_dn ev)
                [MOD_ADD ''objectclass'' OBJC_GROUP, MOD_ADD ATTR_SID (S @ ''-512'')] \<longrightarrow>
            sid_of (snd (add_admin_sids ev d)) (admin_group_dn ev) = Some (S @ ''-512''))
       \<and> (length (admin_entry ATTR_SID) \<le> 1 \<longrightarrow>
            modify_calls (fst (add_admin_sids ev d)) =
              (if has_no_sid admin_entry
               then [(admin_dn ev, [MOD_ADD ''objectclass'' OBJC_USER, MOD_ADD ATTR_SID (S @ ''-500'')])]
               else []) @
              (if has_no_sid group_entry
               then [(admin_group_dn ev, [MOD_ADD ''objectclass'' OBJC_GROUP, MOD_ADD ATTR_SID (S @ ''-512'')])]
               else []))
       \<and> (\<not> has_no_sid admin_entry \<longrightarrow>
             entries (snd (add_admin_sids ev d)) (admin_dn ev) = Some admin_entry)
       \<and> (\<not> has_no_sid group_entry \<longrightarrow>
             entries (snd (add_admin_sids ev d)) (admin_group_dn ev) = Some group_entry)"
proof (cases "length (admin_entry ATTR_SID) \<le> 1")
  case True
  from add_admin_sids_writes [OF dom adm True grp] add_admin_sids_result [OF dom adm True grp] True
  show ?thesis by simp
next
  case False
  then have multi: "2 \<le> length (admin_entry ATTR_SID)" by simp
  from False have "\<not> has_no_sid admin_entry" "admin_entry ATTR_SID \<noteq> []"
    using has_no_sid_length [of admin_entry] by auto
  with False add_admin_sids_admin_multi [OF dom adm multi grp] adm grp
  show ?thesis by simp
qed

lemma example_dir_fresh_entries:
  "entries example_dir_fresh (smb_dom_dn example_env) = Some example_dom_entry"
  "entries example_dir_fresh (admin_dn example_env) = Some no_attrs"
  "entries example_dir_fresh (admin_group_dn example_env) = Some no_attrs"
  "refuses example_dir_fresh dn mods = False"
  by (simp_all add: example_dir_fresh_def example_env_def smb_dom_dn_def admin_dn_def
      admin_group_dn_def)

lemma example_dir_refusing_group_entries:
  "entries example_dir_refusing_group (smb_dom_dn example_env) = Some example_dom_entry"
  "entries example_dir_refusing_group (admin_dn example_env) = Some no_attrs"
  "entries example_dir_refusing_group (admin_group_dn example_env) = Some no_attrs"
  "refuses example_dir_refusing_group (admin_dn example_env) mods = False"
  by (simp_all add: example_dir_refusing_group_def admin_dns_distinct)
     (simp_all add: example_env_def smb_dom_dn_def admin_dn_def admin_group_dn_def)

text \<open>
  C10, as stated: whenever the domain object exists with SID \<open>S\<close>, an admin user entry
  without a SID would get \<open>S-500\<close>. In a directory that holds the domain object with
  its SID and the admin user without one, but no admins group, the step returns at
  "IPA admin group object not found": it writes nothing and the admin user still has
  no SID.
\<close>

theorem add_admin_sids_missing_group_counterexample:
  "sid_of example_dir_without_group (smb_dom_dn example_env) = Some ''S-1-5-21-1-2-3''
   \<and> entries example_dir_without_group (admin_dn example_env) = Some no_attrs
   \<and> no_attrs ATTR_SID = []
   \<and> modify_calls (fst (add_admin_sids example_env example_dir_without_group)) = []
   \<and> sid_of (snd (add_admin_sids example_env example_dir_without_group)) (admin_dn example_env)
       = None"
proof -
  have "modify_calls (fst (add_admin_sids example_env example_dir_without_group)) = []
        \<and> snd (add_admin_sids example_env example_dir_without_group) = example_dir_without_group"
    by (rule add_admin_sids_no_write) (simp add: example_dir_without_group_entries)
  then show ?thesis
    by (simp add: sid_of_def example_dir_without_group_entries example_dom_entry_def no_attrs_def)
qed

text \<open>
  C10, amended. When the domain object exists with a SID \<open>S\<close> that is not empty, and the
  admin user entry and the admins group entry both exist:
  \<^item> if the admin user entry has no SID, the step sends it the modification that adds
    the class and the SID \<open>S-500\<close>, and when the entry had no SID value and the
    directory accepts that write, its SID is exactly \<open>S-500\<close> afterwards;
  \<^item> if the admins group entry has no SID and the admin user entry holds at most one
    SID value (so that reading it did not raise), the step sends the group the
    modification that adds the class and the SID \<open>S-512\<close>, and when the entry had no
    SID value and the directory accepts that write, its SID is exactly \<open>S-512\<close>
    afterwards;
  \<^item> with at most one SID value on the admin user entry, these are the only
    modifications the step sends, the user's first;
  \<^item> an entry that already has a SID is left as it was.

  When the domain object is missing or has no SID, or the admin user or the admins
  group is missing, the step writes nothing and the directory is unchanged.
\<close>

theorem add_admin_sids_well_known_sids:
  "(entries d (smb_dom_dn ev) = Some dom_entry \<and> dom_entry ATTR_SID = [S] \<and> S \<noteq> [] \<and>
    entries d (admin_dn ev) = Some admin_entry \<and>
    entries d (admin_group_dn ev) = Some group_entry \<longrightarrow>
      (has_no_sid admin_entry \<longrightarrow>
         (admin_dn ev, [MOD_ADD ''objectclass'' OBJC_USER, MOD_ADD ATTR_SID (S @ ''-500'')])
           \<in> set (modify_calls (fst (add_admin_sids ev d))))
      \<and> (admin_entry ATTR_SID = [] \<and>
          \<not> refuses d (admin_dn ev)
                [MOD_ADD ''objectclass'' OBJC_USER, MOD_ADD ATTR_SID (S @ ''-500'')] \<longrightarrow>
            sid_of (snd (add_admin_sids ev d)) (admin_dn ev) = Some (S @ ''-500''))
      \<and> (length (admin_entry ATTR_SID) \<le> 1 \<and> has_no_sid group_entry \<longrightarrow>
            (admin_group_dn ev, [MOD_ADD ''objectclass'' OBJC_GROUP, MOD_ADD ATTR_SID (S @ ''-512'')])
              \<in> set (modify_calls (fst (add_admin_sids ev d))))
      \<and> (length (admin_entry ATTR_SID) \<le> 1 \<and> group_entry ATTR_SID = [] \<and>
          \<not> refuses d (admin_group_dn ev)
                [MOD_ADD ''objectclass'' OBJC_GROUP, MOD_ADD ATTR_SID (S @ ''-512'')] \<longrightarrow>
            sid_of (snd (add_admin_sids ev d)) (admin_group_dn ev) = Some (S @ ''-512''))
      \<and> (length (admin_entry ATTR_SID) \<le> 1 \<longrightarrow>
            modify_calls (fst (add_admin_sids ev d)) =
              (if has_no_sid admin_entry
               then [(admin_dn ev, [MOD_ADD ''objectclass'' OBJC_USER, MOD_ADD ATTR_SID (S @ ''-500'')])]
               else []) @
              (if has_no_sid group_entry
               then [(admin_group_dn ev, [MOD_ADD ''objectclass'' OBJC_GROUP, MOD_ADD ATTR_SID (S @ ''-512'')])]
               else []))
      \<and> (\<not> has_no_sid admin_entry \<longrightarrow>
            entries (snd (add_admin_sids ev d)) (admin_dn ev) = Some admin_entry)
      \<and> (\<not> has_no_sid group_entry \<longrightarrow>
            entries (snd (add_admin_sids ev d)) (admin_group_dn ev) = Some group_entry))
   \<and> (entries d (smb_dom_dn ev) = None
        \<or> (\<exists>e. entries d (smb_dom_dn ev) = Some e \<and> has_no_sid e)
        \<or> entries d (admin_dn ev) = None
        \<or> entries d (admin_group_dn ev) = None \<longrightarrow>
      modify_calls (fst (add_admin_sids ev d)) = [] \<and> snd (add_admin_sids ev d) = d)"
proof (rule conjI; rule impI)
  assume "entries d (smb_dom_dn ev) = None
        \<or> (\<exists>e. entries d (smb_dom_dn ev) = Some e \<and> has_no_sid e)
        \<or> entries d (admin_dn ev) = None
        \<or> entries d (admin_group_dn ev) = None"
  then show "modify_calls (fst (add_admin_sids ev d)) = [] \<and> snd (add_admin_sids ev d) = d"
    by (rule add_admin_sids_no_write)
next
  assume a: "entries d (smb_dom_dn ev) = Some dom_entry \<and> dom_entry ATTR_SID = [S] \<and> S \<noteq> [] \<and>
    entries d (admin_dn ev) = Some admin_entry \<and>
    entries d (admin_group_dn ev) = Some group_entry"
  then have dom: "entries d (smb_dom_dn ev) = Some dom_entry" "dom_entry ATTR_SID = [S]" "S \<noteq> []"
    and adm: "entries d (admin_dn ev) = Some admin_entry"
    and grp: "entries d (admin_group_dn ev) = Some group_entry"
    by simp_all
  show "(has_no_sid admin_entry \<longrightarrow>
         (admin_dn ev, [MOD_ADD ''objectclass'' OBJC_USER, MOD_ADD ATTR_SID (S @ ''-500'')])
           \<in> set (modify_calls (fst (add_admin_sids ev d))))
      \<and> (admin_entry ATTR_SID = [] \<and>
          \<not> refuses d (admin_dn ev)
                [MOD_ADD ''objectclass'' OBJC_USER, MOD_ADD ATTR_SID (S @ ''-500'')] \<longrightarrow>
            sid_of (snd (add_admin_sids ev d)) (admin_dn ev) = Some (S @ ''-500''))
      \<and> (length (admin_entry ATTR_SID) \<le> 1 \<and> has_no_sid group_entry \<longrightarrow>
            (admin_group_dn ev, [MOD_ADD ''objectclass'' OBJC_GROUP, MOD_ADD ATTR_SID (S @ ''-512'')])
              \<in> set (modify_calls (fst (add_admin_sids ev d))))
      \<and> (length (admin_entry ATTR_SID) \<le> 1 \<and> group_entry ATTR_SID = [] \<and>
          \<not> refuses d (admin_group_dn ev)
                [MOD_ADD ''objectclass'' OBJC_GROUP, MOD_ADD ATTR_SID (S @ ''-512'')] \<longrightarrow>
            sid_of (snd (add_admin_sids ev d)) (admin_group_dn ev) = Some (S @ ''-512''))
      \<and> (length (admin_entry ATTR_SID) \<le> 1 \<longrightarrow>
            modify_calls (fst (add_admin_sids ev d)) =
              (if has_no_sid admin_entry
               then [(admin_dn ev, [MOD_ADD ''objectclass'' OBJC_USER, MOD_ADD ATTR_SID (S @ ''-500'')])]
               else []) @
              (if has_no_sid group_entry
               then [(admin_group_dn ev, [MOD_ADD ''objectclass'' OBJC_GROUP, MOD_ADD ATTR_SID (S @ ''-512'')])]
               else []))
      \<and> (\<not> has_no_sid admin_entry \<longrightarrow>
            entries (snd (add_admin_sids ev d)) (admin_dn ev) = Some admin_entry)
      \<and> (\<not> has_no_sid group_entry \<longrightarrow>
            entries (snd (add_admin_sids ev d)) (admin_group_dn ev) = Some group_entry)"
    by (rule add_admin_sids_existing_entries [OF dom adm grp])
qed

theorem add_admin_sids_well_known_sids_witness:
  "modify_calls (fst (add_admin_sids example_env example_dir_fresh)) =
     [(admin_dn example_env,
       [MOD_ADD ''objectclass'' OBJC_USER, MOD_ADD ATTR_SID ''S-1-5-21-1-2-3-500'']),
      (admin_group_dn example_env,
       [MOD_ADD ''objectclass'' OBJC_GROUP, MOD_ADD ATTR_SID ''S-1-5-21-1-2-3-512''])]
   \<and> sid_of (snd (add_admin_sids example_env example_dir_fresh)) (admin_dn example_env)
       = Some ''S-1-5-21-1-2-3-500''
   \<and> sid_of (snd (add_admin_sids example_env example_dir_fresh)) (admin_group_dn example_env)
       = Some ''S-1-5-21-1-2-3-512''
   \<and> sid_of (snd (add_admin_sids example_env example_dir_refusing_group)) (admin_dn example_env)
       = Some ''S-1-5-21-1-2-3-500''
   \<and> entries (snd (add_admin_sids example_env example_dir)) (admin_group_dn example_env)
       = Some (no_attrs(ATTR_SID := [''S-1-5-21-1-2-3-512'']))
   \<and> modify_calls (fst (add_admin_sids example_env example_dir_without_group)) = []
   \<and> snd (add_admin_sids example_env example_dir_without_group) = example_dir_without_group"
  using add_admin_sids_well_known_sids
          [where d = example_dir_fresh and ev = example_env and dom_entry = example_dom_entry
             and S = "''S-1-5-21-1-2-3''" and admin_entry = no_attrs and group_entry = no_attrs]
        add_admin_sids_well_known_sids
          [where d = example_dir_refusing_group and ev = example_env
             and dom_entry = example_dom_entry
             and S = "''S-1-5-21-1-2-3''" and admin_entry = no_attrs and group_entry = no_attrs]
        add_admin_sids_well_known_sids
          [where d = example_dir and ev = example_env and dom_entry = example_dom_entry
             and S = "''S-1-5-21-1-2-3''" and admin_entry = no_attrs
             and group_entry = "no_attrs(ATTR_SID := [''S-1-5-21-1-2-3-512''])"]
        add_admin_sids_well_known_sids
          [where d = example_dir_without_group and ev = example_env]
  by (simp add: example_dir_entries example_dir_fresh_entries example_dir_refusing_group_entries
      example_dir_without_group_entries example_dom_entry_def no_attrs_def has_no_sid_def)

end
